theory Spec2Isabelle
  imports Complex_Main
begin

section \<open>ViewEngine REST API demo: a shallow embedding of \<^verbatim>\<open>viewengine_demo.py\<close>\<close>

text \<open>
  The script talks to a server over HTTP, reads lines from the console and prints.
  The embedding makes these effects explicit: every function of the script becomes a
  function on a \<open>world\<close> that holds the lines still to be read, the replies the server
  will give, and the trace of what the script has done so far. A Python exception is the
  \<open>Inl\<close> side of the result.
\<close>

subsection \<open>Python values\<close>

text \<open>
  What \<^verbatim>\<open>response.json()\<close> returns: \<^verbatim>\<open>None\<close>, booleans, numbers, strings, lists and
  dicts with string keys. A dict is the list of its items, looked up with \<open>map_of\<close>.
  A \<open>string\<close> is a list of 8-bit characters, read as the code points below 256, and
  \<open>PStr\<close> is a Python string of such code points only. Any other Python string is a
  \<open>PWide s k cs\<close>: the 8-bit characters \<open>s\<close> before its first code point of 256 or
  more, that code point, which is \<open>256 + k\<close>, and the code points \<open>cs\<close> after it. So
  every string has one form, and a lone surrogate, which JSON can carry, has a place.
  The keys of a dict, the lines of the console and the text of a response stay 8-bit.
\<close>

datatype pyval =
    PNone
  | PBool bool
  | PInt int
  | PFloat real
  | PStr string
  | PWide string nat "nat list"
  | PList "pyval list"
  | PDict "(string \<times> pyval) list"

text \<open>Python's truth value of an object (\<^verbatim>\<open>if x\<close>, \<^verbatim>\<open>not x\<close>).\<close>

fun truthy :: "pyval \<Rightarrow> bool" where
  "truthy PNone = False"
| "truthy (PBool b) = b"
| "truthy (PInt i) = (i \<noteq> 0)"
| "truthy (PFloat x) = (x \<noteq> 0)"
| "truthy (PStr s) = (s \<noteq> [])"
| "truthy (PWide s k cs) = True"
| "truthy (PList xs) = (xs \<noteq> [])"
| "truthy (PDict kvs) = (kvs \<noteq> [])"

datatype exn =
    RequestException string
  | HTTPError int
  | JSONDecodeError
  | AttributeError
  | KeyError string
  | TypeError
  | EOFError
  | UnicodeEncodeError
  | SystemExit int

text \<open>\<^verbatim>\<open>except Exception\<close> catches everything here but \<^verbatim>\<open>SystemExit\<close>.\<close>

fun is_Exception :: "exn \<Rightarrow> bool" where
  "is_Exception (SystemExit n) = False"
| "is_Exception e = True"

text \<open>\<^verbatim>\<open>v.get(key, default)\<close>: only a dict has the method.\<close>

fun dict_get :: "pyval \<Rightarrow> string \<Rightarrow> pyval \<Rightarrow> exn + pyval" where
  "dict_get (PDict kvs) k d = Inr (case map_of kvs k of None \<Rightarrow> d | Some v \<Rightarrow> v)"
| "dict_get v k d = Inl AttributeError"

text \<open>\<^verbatim>\<open>v['key']\<close> with a string key.\<close>

fun subscript :: "pyval \<Rightarrow> string \<Rightarrow> exn + pyval" where
  "subscript (PDict kvs) k = (case map_of kvs k of None \<Rightarrow> Inl (KeyError k) | Some v \<Rightarrow> Inr v)"
| "subscript v k = Inl TypeError"

text \<open>The string of one character with the code point \<open>c\<close>.\<close>

definition char_str :: "nat \<Rightarrow> pyval" where
  "char_str c = (if c < 256 then PStr [char_of c] else PWide [] (c - 256) [])"

text \<open>\<^verbatim>\<open>len(v)\<close> and the elements \<^verbatim>\<open>for x in v\<close> visits.\<close>

fun py_len :: "pyval \<Rightarrow> exn + int" where
  "py_len (PStr s) = Inr (int (length s))"
| "py_len (PWide s k cs) = Inr (int (length s) + 1 + int (length cs))"
| "py_len (PList xs) = Inr (int (length xs))"
| "py_len (PDict kvs) = Inr (int (length kvs))"
| "py_len v = Inl TypeError"

fun py_iter :: "pyval \<Rightarrow> exn + pyval list" where
  "py_iter (PStr s) = Inr (map (\<lambda>c. PStr [c]) s)"
| "py_iter (PWide s k cs) =
     Inr (map (\<lambda>c. PStr [c]) s @ [PWide [] k []] @ map char_str cs)"
| "py_iter (PList xs) = Inr xs"
| "py_iter (PDict kvs) = Inr (map (\<lambda>kv. PStr (fst kv)) kvs)"
| "py_iter v = Inl TypeError"

text \<open>\<^verbatim>\<open>v.keys()\<close>: only a dict has the method.\<close>

fun dict_keys :: "pyval \<Rightarrow> exn + string list" where
  "dict_keys (PDict kvs) = Inr (map fst kvs)"
| "dict_keys v = Inl AttributeError"

text \<open>\<^verbatim>\<open>sep.join(xs)\<close>.\<close>

fun join :: "string \<Rightarrow> string list \<Rightarrow> string" where
  "join sep [] = []"
| "join sep [x] = x"
| "join sep (x # y # ys) = x @ sep @ join sep (y # ys)"

subsection \<open>Strings\<close>

text \<open>
  \<^verbatim>\<open>str.strip()\<close> removes the white space at both ends, \<^verbatim>\<open>str.lower()\<close> maps each
  upper-case letter to its lower-case one. Both are given for the code points below 256:
  there the white space is 9 to 13, 28 to 32, 133 and 160, and the upper-case letters are
  A to Z and 192 to 222 without 215.
\<close>

definition is_space :: "char \<Rightarrow> bool" where
  "is_space c = (of_char c \<in> set [9, 10, 11, 12, 13, 28, 29, 30, 31, 32, 133, 160 :: nat])"

definition strip :: "string \<Rightarrow> string" where
  "strip s = rev (dropWhile is_space (rev (dropWhile is_space s)))"

definition lower_char :: "char \<Rightarrow> char" where
  "lower_char c =
     (let n = (of_char c :: nat)
      in if (65 \<le> n \<and> n \<le> 90) \<or> (192 \<le> n \<and> n \<le> 222 \<and> n \<noteq> 215)
         then char_of (n + 32) else c)"

definition lower :: "string \<Rightarrow> string" where
  "lower s = map lower_char s"

subsection \<open>The world: console, server and trace\<close>

text \<open>
  An f-string is kept as its template and the values of its fields, in order; a plain
  string is \<open>Str\<close>. \<open>FmtE\<close> is a template with a caught exception as its last field.
  The templates leave out the emoji and the line breaks of the source's literals.
\<close>

datatype ftext = Str string | Fmt string "pyval list" | FmtE string "pyval list" exn

text \<open>
  What \<^verbatim>\<open>requests\<close> gives back: the status code, the body as text, and what
  \<^verbatim>\<open>response.json()\<close> makes of the body (\<open>None\<close> when it raises).
\<close>

record response =
  status_code :: int
  body_text :: string
  json_body :: "pyval option"

text \<open>A request either raises (no connection, bad URL, time-out) or is answered.\<close>

datatype reply = Raises string | Responds response

datatype event =
    Session_opened "(string \<times> string) list"
  | Get ftext
  | Post ftext pyval "(string \<times> string) list"
  | Sleep nat
  | Print ftext
  | Prompt ftext
  | Traceback exn

text \<open>
  \<open>server w n\<close> is the reply to the \<open>n\<close>-th request of the run (counted from 0),
  \<open>sent w\<close> the number of requests made so far.
\<close>

record world =
  stdin :: "string list"
  server :: "nat \<Rightarrow> reply"
  sent :: nat
  trace :: "event list"

type_synonym 'a prog = "world \<Rightarrow> (exn + 'a) \<times> world"

definition ret :: "'a \<Rightarrow> 'a prog" where
  "ret x = (\<lambda>w. (Inr x, w))"

definition raise :: "exn \<Rightarrow> 'a prog" where
  "raise e = (\<lambda>w. (Inl e, w))"

definition bnd :: "'a prog \<Rightarrow> ('a \<Rightarrow> 'b prog) \<Rightarrow> 'b prog" where
  "bnd m f = (\<lambda>w. case m w of (Inl e, w1) \<Rightarrow> (Inl e, w1) | (Inr x, w1) \<Rightarrow> f x w1)"

definition seq :: "'a prog \<Rightarrow> 'b prog \<Rightarrow> 'b prog" where
  "seq m n = bnd m (\<lambda>_. n)"

text \<open>The value of an expression that may raise.\<close>

definition lift :: "exn + 'a \<Rightarrow> 'a prog" where
  "lift r = (\<lambda>w. (r, w))"

text \<open>\<^verbatim>\<open>try: m except Exception as e: h e\<close>. What \<open>m\<close> did before it raised stays done.\<close>

definition try_except :: "'a prog \<Rightarrow> (exn \<Rightarrow> 'a prog) \<Rightarrow> 'a prog" where
  "try_except m h =
     (\<lambda>w. case m w of
            (Inl e, w1) \<Rightarrow> if is_Exception e then h e w1 else (Inl e, w1)
          | (Inr x, w1) \<Rightarrow> (Inr x, w1))"

definition emit :: "event \<Rightarrow> unit prog" where
  "emit e = (\<lambda>w. (Inr (), w\<lparr>trace := trace w @ [e]\<rparr>))"

text \<open>
  \<^verbatim>\<open>print\<close> writes to a UTF-8 console, which takes every string but one with a
  surrogate code point (55296 to 57343): then it raises and nothing is written. A field
  of an f-string is written as \<^verbatim>\<open>str\<close> makes it, so only a field that is itself a
  string can bring a surrogate: inside a list or a dict \<^verbatim>\<open>repr\<close> escapes it, as do
  the messages of the exceptions.
\<close>

definition surrogate :: "nat \<Rightarrow> bool" where
  "surrogate c = (55296 \<le> c \<and> c \<le> 57343)"

fun encodable :: "pyval \<Rightarrow> bool" where
  "encodable (PWide s k cs) = (\<not> surrogate (256 + k) \<and> list_all (\<lambda>c. \<not> surrogate c) cs)"
| "encodable v = True"

fun ftext_fields :: "ftext \<Rightarrow> pyval list" where
  "ftext_fields (Str s) = []"
| "ftext_fields (Fmt t vs) = vs"
| "ftext_fields (FmtE t vs e) = vs"

definition py_print :: "ftext \<Rightarrow> unit prog" where
  "py_print t =
     (if list_all encodable (ftext_fields t) then emit (Print t)
      else raise UnicodeEncodeError)"

definition sleep :: "nat \<Rightarrow> unit prog" where
  "sleep n = emit (Sleep n)"

text \<open>\<^verbatim>\<open>input(prompt)\<close>: the next line of the console, \<^verbatim>\<open>EOFError\<close> when there is none.\<close>

definition py_input :: "ftext \<Rightarrow> string prog" where
  "py_input p =
     (\<lambda>w. case stdin w of
            [] \<Rightarrow> (Inl EOFError, w\<lparr>trace := trace w @ [Prompt p]\<rparr>)
          | l # ls \<Rightarrow> (Inr l, w\<lparr>stdin := ls, trace := trace w @ [Prompt p]\<rparr>))"

text \<open>A request of the session: the event is \<open>Get\<close> or \<open>Post\<close>.\<close>

definition http :: "event \<Rightarrow> response prog" where
  "http req =
     (\<lambda>w. (case server w (sent w) of
              Raises m \<Rightarrow> Inl (RequestException m)
            | Responds r \<Rightarrow> Inr r,
            w\<lparr>sent := Suc (sent w), trace := trace w @ [req]\<rparr>))"

text \<open>
  \<^verbatim>\<open>response.raise_for_status()\<close> raises for the codes 400 to 599, and
  \<^verbatim>\<open>response.ok\<close> is whether it does not.
\<close>

definition raise_for_status :: "response \<Rightarrow> exn + unit" where
  "raise_for_status r =
     (if 400 \<le> status_code r \<and> status_code r < 600 then Inl (HTTPError (status_code r))
      else Inr ())"

definition ok :: "response \<Rightarrow> bool" where
  "ok r = (case raise_for_status r of Inl e \<Rightarrow> False | Inr u \<Rightarrow> True)"

definition response_json :: "response \<Rightarrow> exn + pyval" where
  "response_json r = (case json_body r of None \<Rightarrow> Inl JSONDecodeError | Some v \<Rightarrow> Inr v)"

definition API_BASE_URL :: string where
  "API_BASE_URL = ''https://www.viewengine.io''"

subsection \<open>\<^verbatim>\<open>poll_for_results\<close>\<close>

text \<open>What one pass through the loop body does to the loop: go on, or return a value.\<close>

datatype 'a ctl = Next | Return 'a

definition poll_url :: "pyval \<Rightarrow> ftext" where
  "poll_url request_id =
     Fmt ''{API_BASE_URL}/v1/mcp/retrieve/{request_id}'' [PStr API_BASE_URL, request_id]"

text \<open>The body of the \<^verbatim>\<open>try\<close>, lines 170 to 193.\<close>

definition poll_try :: "pyval \<Rightarrow> int \<Rightarrow> int \<Rightarrow> pyval ctl prog" where
  "poll_try request_id max_attempts attempt =
     bnd (http (Get (poll_url request_id))) (\<lambda>response.
     bnd (lift (raise_for_status response)) (\<lambda>_.
     bnd (lift (response_json response)) (\<lambda>result.
       if \<not> truthy result then
         seq (py_print (Fmt ''   [{attempt}/{max_attempts}] Failed to deserialize response''
                [PInt attempt, PInt max_attempts]))
        (seq (sleep 2)
             (ret Next))
       else
         bnd (lift (dict_get result ''status'' (PStr ''unknown''))) (\<lambda>status.
         bnd (lift (dict_get result ''message'' (PStr ''''))) (\<lambda>message.
         seq (py_print (Fmt ''   [{attempt}/{max_attempts}] Status: {status} - {message}''
                [PInt attempt, PInt max_attempts, status, message]))
          (if status = PStr ''complete'' then ret (Return result)
           else if status \<in> set [PStr ''failed'', PStr ''canceled''] then
             bnd (lift (dict_get result ''error'' (PStr ''Unknown error''))) (\<lambda>error.
             seq (py_print (Fmt ''   Error: {error}'' [error]))
                 (ret (Return result)))
           else
             seq (sleep 2)
                 (ret Next)))))))"

text \<open>The loop body with its \<^verbatim>\<open>except\<close>, lines 169 to 196.\<close>

definition poll_iteration :: "pyval \<Rightarrow> int \<Rightarrow> int \<Rightarrow> pyval ctl prog" where
  "poll_iteration request_id max_attempts attempt =
     try_except (poll_try request_id max_attempts attempt) (\<lambda>e.
       seq (py_print (FmtE ''   [{attempt}/{max_attempts}] Error: {e}''
              [PInt attempt, PInt max_attempts] e))
      (seq (sleep 2)
           (ret Next)))"

text \<open>The \<^verbatim>\<open>for\<close> loop over the attempts still to make, and what follows it.\<close>

fun poll_loop :: "pyval \<Rightarrow> int \<Rightarrow> int list \<Rightarrow> pyval prog" where
  "poll_loop request_id max_attempts [] =
     seq (py_print (Str ''Timeout: Maximum polling attempts reached''))
         (ret PNone)"
| "poll_loop request_id max_attempts (attempt # rest) =
     bnd (poll_iteration request_id max_attempts attempt) (\<lambda>c.
       case c of
         Return result \<Rightarrow> ret result
       | Next \<Rightarrow> poll_loop request_id max_attempts rest)"

text \<open>\<^verbatim>\<open>range(1, max_attempts + 1)\<close> is the list \<open>[1..max_attempts]\<close>.\<close>

definition poll_for_results :: "pyval \<Rightarrow> int \<Rightarrow> pyval prog" where
  "poll_for_results request_id max_attempts =
     poll_loop request_id max_attempts [1..max_attempts]"

subsection \<open>\<^verbatim>\<open>get_mcp_tools\<close> and \<^verbatim>\<open>submit_retrieve_request\<close>\<close>

definition get_mcp_tools :: "pyval prog" where
  "get_mcp_tools =
     try_except
       (bnd (http (Get (Fmt ''{API_BASE_URL}/v1/mcp/tools'' [PStr API_BASE_URL]))) (\<lambda>response.
        bnd (lift (raise_for_status response)) (\<lambda>_.
        bnd (lift (response_json response)) (\<lambda>data.
        lift (dict_get data ''tools'' PNone)))))
       (\<lambda>e. seq (py_print (FmtE ''Error getting tools: {e}'' [] e))
                (ret PNone))"

definition request_body :: "string \<Rightarrow> bool \<Rightarrow> string \<Rightarrow> pyval" where
  "request_body url force_refresh mode =
     PDict [(''url'', PStr url),
            (''timeoutSeconds'', PInt 60),
            (''forceRefresh'', PBool force_refresh),
            (''mode'', PStr mode)]"

definition submit_url :: ftext where
  "submit_url = Fmt ''{API_BASE_URL}/v1/mcp/retrieve'' [PStr API_BASE_URL]"

definition submit_retrieve_request :: "string \<Rightarrow> bool \<Rightarrow> string \<Rightarrow> pyval prog" where
  "submit_retrieve_request url force_refresh mode =
     try_except
       (bnd (http (Post submit_url (request_body url force_refresh mode)
                     [(''Content-Type'', ''application/json'')])) (\<lambda>response.
        if \<not> ok response then
          seq (py_print (Fmt ''API Error ({response.status_code}): {response.text}''
                 [PInt (status_code response), PStr (body_text response)]))
              (ret PNone)
        else
          bnd (lift (raise_for_status response)) (\<lambda>_.
          lift (response_json response))))
       (\<lambda>e. seq (py_print (FmtE ''Error submitting retrieval request: {e}'' [] e))
                (ret PNone))"

subsection \<open>\<^verbatim>\<open>download_page_data\<close>\<close>

text \<open>
  The rule of 60 box-drawing characters, which have no 8-bit code; the top and the bottom
  of the banner's box are written in the same way.
\<close>

definition hrule :: ftext where
  "hrule = Fmt ''{HEAVY HORIZONTAL * 60}'' []"

text \<open>
  \<open>dumps\<close> stands for \<^verbatim>\<open>json.dumps(page_data, indent=2)\<close>, a function of the standard
  library: the model takes it as a parameter.
\<close>

definition download_page_data :: "(pyval \<Rightarrow> string) \<Rightarrow> pyval \<Rightarrow> unit prog" where
  "download_page_data dumps page_data_url =
     try_except
       (seq (py_print (Str ''Downloading page content...''))
       (bnd (http (Get (Fmt ''{page_data_url}'' [page_data_url]))) (\<lambda>response.
        bnd (lift (raise_for_status response)) (\<lambda>_.
        bnd (lift (response_json response)) (\<lambda>page_data.
        seq (py_print (Str ''Page Content (first 500 chars):''))
       (seq (py_print hrule)
       (let pretty_json = dumps page_data
        in seq (if length pretty_json > 500
                then py_print (Str (take 500 pretty_json @ ''...''))
                else py_print (Str pretty_json))
               (py_print hrule))))))))
       (\<lambda>e. py_print (FmtE ''Error downloading page data: {e}'' [] e))"

subsection \<open>\<^verbatim>\<open>run_demo\<close>\<close>

text \<open>The loop over the tools, lines 54 and 55.\<close>

fun print_tools :: "pyval list \<Rightarrow> unit prog" where
  "print_tools [] = ret ()"
| "print_tools (tool # rest) =
     bnd (lift (subscript tool ''name'')) (\<lambda>name.
     bnd (lift (subscript tool ''description'')) (\<lambda>description.
     seq (py_print (Fmt ''   * {tool[name]}: {tool[description]}'' [name, description]))
         (print_tools rest)))"

text \<open>Lines 107 to 120: what is printed and asked when the result has content.\<close>

definition show_content :: "(pyval \<Rightarrow> string) \<Rightarrow> pyval \<Rightarrow> unit prog" where
  "show_content dumps result =
     bnd (lift (subscript result ''content'')) (\<lambda>content.
     seq (py_print (Str ''Content available:''))
    (bnd (lift (subscript content ''pageDataUrl'')) (\<lambda>page_data_url.
     seq (py_print (Fmt ''   Page Data URL: {content[pageDataUrl]}'' [page_data_url]))
    (bnd (lift (dict_get content ''contentHash'' (PStr ''N/A''))) (\<lambda>content_hash.
     seq (py_print (Fmt ''   Content Hash: {content.get(contentHash, N/A)}'' [content_hash]))
    (seq (bnd (lift (dict_get content ''artifacts'' PNone)) (\<lambda>a.
            if truthy a then
              bnd (lift (subscript content ''artifacts'')) (\<lambda>artifacts.
              bnd (lift (dict_keys artifacts)) (\<lambda>ks.
              py_print (Fmt ''   Artifacts: {, .join(content[artifacts].keys())}''
                [PStr (join '', '' ks)])))
            else ret ()))
    (seq (bnd (lift (dict_get content ''metrics'' PNone)) (\<lambda>m.
            if truthy m then
              bnd (lift (subscript content ''metrics'')) (\<lambda>metrics.
              bnd (lift (dict_keys metrics)) (\<lambda>ks.
              py_print (Fmt ''   Metrics: {, .join(content[metrics].keys())}''
                [PStr (join '', '' ks)])))
            else ret ()))
    (bnd (py_input (Str ''Download page content? (y/n): '')) (\<lambda>line.
     let download = lower (strip line)
     in if download = ''y'' then
          bnd (lift (subscript content ''pageDataUrl'')) (\<lambda>url.
          download_page_data dumps url)
        else ret ())))))))))"

text \<open>Lines 101 to 123: after a result has come back.\<close>

definition after_poll :: "(pyval \<Rightarrow> string) \<Rightarrow> pyval \<Rightarrow> unit prog" where
  "after_poll dumps result =
     seq (py_print (Str ''Retrieval completed!''))
    (bnd (lift (subscript result ''status'')) (\<lambda>status.
     seq (py_print (Fmt ''   Status: {result[status]}'' [status]))
    (bnd (lift (subscript result ''url'')) (\<lambda>url.
     seq (py_print (Fmt ''   URL: {result[url]}'' [url]))
    (bnd (lift (dict_get result ''completedAt'' (PStr ''N/A''))) (\<lambda>completed_at.
     seq (py_print (Fmt ''   Completed at: {result.get(completedAt, N/A)}'' [completed_at]))
    (seq (bnd (lift (dict_get result ''content'' PNone)) (\<lambda>c.
            if truthy c then show_content dumps result else ret ()))
    (seq (py_print hrule)
         (py_print (Str ''Demo completed successfully!''))))))))))"

text \<open>Lines 88 to 99: after the request has been accepted.\<close>

definition after_submit :: "(pyval \<Rightarrow> string) \<Rightarrow> pyval \<Rightarrow> unit prog" where
  "after_submit dumps retrieve_response =
     seq (py_print (Str ''Request submitted successfully!''))
    (bnd (lift (subscript retrieve_response ''requestId'')) (\<lambda>request_id.
     seq (py_print (Fmt ''   Request ID: {retrieve_response[requestId]}'' [request_id]))
    (bnd (lift (subscript retrieve_response ''status'')) (\<lambda>status.
     seq (py_print (Fmt ''   Status: {retrieve_response[status]}'' [status]))
    (bnd (lift (subscript retrieve_response ''estimatedWaitTimeSeconds'')) (\<lambda>wait.
     seq (py_print (Fmt ''   Estimated wait: {retrieve_response[estimatedWaitTimeSeconds]}s''
            [wait]))
    (seq (py_print hrule)
    (seq (py_print (Str ''Step 3: Polling for results (this may take a while)...''))
    (bnd (lift (subscript retrieve_response ''requestId'')) (\<lambda>request_id.
     bnd (poll_for_results request_id 60) (\<lambda>result.
     if \<not> truthy result then py_print (Str ''Failed to get results'')
     else after_poll dumps result)))))))))))"

text \<open>Lines 61 to 86: the three questions, and the request they lead to.\<close>

definition ask_and_submit :: "(pyval \<Rightarrow> string) \<Rightarrow> unit prog" where
  "ask_and_submit dumps =
     bnd (py_input (Str ''Enter a URL to retrieve (or press Enter for example.com): ''))
       (\<lambda>url_line.
     let url = (if strip url_line = [] then ''https://example.com'' else strip url_line)
     in
     bnd (py_input (Str ''Force fresh retrieval? (y/n, default: n - use cache if available): ''))
       (\<lambda>force_line.
     let force_refresh_input = lower (strip force_line);
         force_refresh = (force_refresh_input = ''y'')
     in
     bnd (py_input (Str ''Processing mode (private/community, default: private): ''))
       (\<lambda>mode_line.
     let mode_input = lower (strip mode_line);
         mode = (if mode_input = ''community'' then ''community'' else ''private'')
     in
     seq (py_print (Fmt ''Step 2: Submitting retrieval request for {url}...'' [PStr url]))
    (seq (if force_refresh
          then py_print (Str ''   (Forcing fresh retrieval, bypassing cache)'')
          else py_print (Str ''   (Will use cached results if available)''))
    (seq (py_print (Fmt ''   Mode: {mode}'' [PStr mode]))
    (bnd (submit_retrieve_request url force_refresh mode) (\<lambda>retrieve_response.
     if \<not> truthy retrieve_response then py_print (Str ''Failed to submit retrieval request'')
     else after_submit dumps retrieve_response)))))))"

definition run_demo :: "(pyval \<Rightarrow> string) \<Rightarrow> unit prog" where
  "run_demo dumps =
     seq (py_print (Str ''Step 1: Discovering available MCP tools...''))
    (bnd get_mcp_tools (\<lambda>tools.
     seq (if truthy tools then
            bnd (lift (py_len tools)) (\<lambda>n.
            seq (py_print (Fmt ''Found {len(tools)} available tools:'' [PInt n]))
           (bnd (lift (py_iter tools)) print_tools))
          else py_print (Str ''No tools found or API not responding''))
    (seq (py_print hrule)
         (ask_and_submit dumps))))"

subsection \<open>\<^verbatim>\<open>__init__\<close>, \<^verbatim>\<open>run\<close> and \<^verbatim>\<open>main\<close>\<close>

definition init :: "string \<Rightarrow> unit prog" where
  "init api_key = emit (Session_opened [(''X-API-Key'', api_key)])"

definition run :: "(pyval \<Rightarrow> string) \<Rightarrow> unit prog" where
  "run dumps =
     seq (py_print (Fmt ''{BOX TOP}'' []))
    (seq (py_print (Str ''ViewEngine REST API Demo (Python)''))
    (seq (py_print (Str ''Demonstrates using the MCP endpoints with an API key''))
    (seq (py_print (Fmt ''{BOX BOTTOM}'' []))
    (seq (py_print (Str []))
    (seq (try_except (run_demo dumps) (\<lambda>e.
            seq (py_print (FmtE ''Error: {e}'' [] e))
           (seq (py_print (Str ''Stack trace:''))
                (emit (Traceback e)))))
    (seq (py_print (Str ''Press Enter to exit...''))
    (bnd (py_input (Str [])) (\<lambda>_.
     ret ()))))))))"

definition usage :: "unit prog" where
  "usage =
     seq (py_print (Str ''Error: API key is required''))
    (seq (py_print (Str ''Usage:''))
    (seq (py_print (Str ''  python viewengine_demo.py <api-key>''))
    (seq (py_print (Str ''  OR''))
         (py_print (Str ''  python viewengine_demo.py   (you will be prompted for the API key)'')))))"

definition main :: "(pyval \<Rightarrow> string) \<Rightarrow> string list \<Rightarrow> unit prog" where
  "main dumps argv =
     bnd (if length argv > 1 then ret (argv ! 1)
          else bnd (py_input (Str ''Enter your API key: '')) (\<lambda>line. ret (strip line)))
       (\<lambda>api_key.
     if api_key = [] then
       seq usage
           (raise (SystemExit 1))
     else
       seq (init api_key)
           (run dumps))"

text \<open>
  The exit status of the process: 0 when \<open>main\<close> returns, the argument of
  \<^verbatim>\<open>sys.exit\<close>, and 1 for an exception nobody caught.
\<close>

fun exit_status :: "exn + unit \<Rightarrow> int" where
  "exit_status (Inr u) = 0"
| "exit_status (Inl (SystemExit n)) = n"
| "exit_status (Inl e) = 1"

section \<open>Properties\<close>

subsection \<open>Vocabulary of the statements\<close>

text \<open>
  The status an iteration of the polling loop gets to look at: the reply must be a
  response that passes \<^verbatim>\<open>raise_for_status\<close> and parses to a truthy value with a
  \<^verbatim>\<open>get\<close> method. A reply is terminal when that status is \<^verbatim>\<open>complete\<close>,
  \<^verbatim>\<open>failed\<close> or \<^verbatim>\<open>canceled\<close>.
\<close>

definition seen_status :: "reply \<Rightarrow> pyval option" where
  "seen_status rp =
     (case rp of
        Raises m \<Rightarrow> None
      | Responds r \<Rightarrow>
          if ok r then
            (case json_body r of
               None \<Rightarrow> None
             | Some result \<Rightarrow>
                 if truthy result then
                   (case dict_get result ''status'' (PStr ''unknown'') of
                      Inl e \<Rightarrow> None
                    | Inr status \<Rightarrow> Some status)
                 else None)
          else None)"

definition terminal :: "reply \<Rightarrow> bool" where
  "terminal rp =
     (seen_status rp \<in> set [Some (PStr ''complete''), Some (PStr ''failed''), Some (PStr ''canceled'')])"

text \<open>
  What an iteration that does not return leaves in the trace, the message and the error
  of a dict as the loop reads them, and the lines the loop prints.
\<close>

definition attempt_events :: "pyval \<Rightarrow> ftext \<Rightarrow> event list" where
  "attempt_events request_id line = [Get (poll_url request_id), Print line, Sleep 2]"

definition message_of :: "(string \<times> pyval) list \<Rightarrow> pyval" where
  "message_of kvs = (case map_of kvs ''message'' of None \<Rightarrow> PStr [] | Some v \<Rightarrow> v)"

definition error_of :: "(string \<times> pyval) list \<Rightarrow> pyval" where
  "error_of kvs = (case map_of kvs ''error'' of None \<Rightarrow> PStr ''Unknown error'' | Some v \<Rightarrow> v)"

definition status_line :: "int \<Rightarrow> int \<Rightarrow> (string \<times> pyval) list \<Rightarrow> ftext" where
  "status_line attempt max_attempts kvs =
     Fmt ''   [{attempt}/{max_attempts}] Status: {status} - {message}''
       [PInt attempt, PInt max_attempts,
        case map_of kvs ''status'' of None \<Rightarrow> PStr ''unknown'' | Some v \<Rightarrow> v,
        message_of kvs]"

definition failure_line :: "(string \<times> pyval) list \<Rightarrow> ftext" where
  "failure_line kvs = Fmt ''   Error: {error}'' [error_of kvs]"

definition error_line :: "int \<Rightarrow> int \<Rightarrow> exn \<Rightarrow> ftext" where
  "error_line attempt max_attempts e =
     FmtE ''   [{attempt}/{max_attempts}] Error: {e}'' [PInt attempt, PInt max_attempts] e"

definition deserialize_line :: "int \<Rightarrow> int \<Rightarrow> ftext" where
  "deserialize_line attempt max_attempts =
     Fmt ''   [{attempt}/{max_attempts}] Failed to deserialize response''
       [PInt attempt, PInt max_attempts]"

text \<open>
  The exception the loop catches when the request raises, the response has an error
  status, or its body does not parse.
\<close>

definition caught :: "reply \<Rightarrow> exn" where
  "caught rp =
     (case rp of
        Raises m \<Rightarrow> RequestException m
      | Responds r \<Rightarrow>
          (case raise_for_status r of Inl e \<Rightarrow> e | Inr u \<Rightarrow> JSONDecodeError))"

definition timeout_line :: ftext where
  "timeout_line = Str ''Timeout: Maximum polling attempts reached''"

text \<open>The seconds slept, in order, in a trace.\<close>

fun sleeps :: "event list \<Rightarrow> nat list" where
  "sleeps [] = []"
| "sleeps (Sleep n # es) = n # sleeps es"
| "sleeps (e # es) = sleeps es"


definition usage_lines :: "event list" where
  "usage_lines =
     [Print (Str ''Error: API key is required''),
      Print (Str ''Usage:''),
      Print (Str ''  python viewengine_demo.py <api-key>''),
      Print (Str ''  OR''),
      Print (Str ''  python viewengine_demo.py   (you will be prompted for the API key)'')]"




subsection \<open>Concrete runs\<close>

text \<open>A response carrying a JSON value, and a world in which nothing has happened yet.\<close>

definition json_response :: "int \<Rightarrow> pyval \<Rightarrow> reply" where
  "json_response code v =
     Responds \<lparr>status_code = code, body_text = ''(json)'', json_body = Some v\<rparr>"

definition start :: "string list \<Rightarrow> (nat \<Rightarrow> reply) \<Rightarrow> world" where
  "start lines srv = \<lparr>stdin = lines, server = srv, sent = 0, trace = []\<rparr>"

definition running :: reply where
  "running = json_response 200 (PDict [(''status'', PStr ''running'')])"



definition w_running :: world where
  "w_running = start [] (\<lambda>n. running)"





definition long_dumps :: "pyval \<Rightarrow> string" where
  "long_dumps v = replicate 501 CHR ''x''"

definition w_page :: world where
  "w_page = start [] (\<lambda>n. json_response 200 (PDict [(''title'', PStr ''t'')]))"

definition w_blank_key :: world where
  "w_blank_key = start [''   ''] (\<lambda>n. Raises ''offline'')"








subsection \<open>The polling loop\<close>

lemma fields_hrule: "ftext_fields hrule = []"
  by (simp add: hrule_def)

lemmas prog_defs = ret_def raise_def bnd_def seq_def lift_def try_except_def emit_def
  py_print_def sleep_def py_input_def http_def fields_hrule

lemma ok_raise_for_status: "ok r \<Longrightarrow> raise_for_status r = Inr ()"
  by (simp add: ok_def split: sum.splits)

lemma raise_for_status_Exception: "raise_for_status r = Inl e \<Longrightarrow> is_Exception e"
  by (auto simp: raise_for_status_def split: if_splits)

text \<open>
  What an iteration does with each kind of reply. When the request raises, the response
  has an error status or its body does not parse, the exception is caught.
\<close>

lemma poll_iteration_error:
  assumes "server w (sent w) = Raises msg \<or>
    (\<exists>r. server w (sent w) = Responds r \<and> json_body r = None)"
  shows "poll_iteration rid m a w =
    (Inr Next,
     w\<lparr>sent := Suc (sent w),
       trace := trace w @
         [Get (poll_url rid), Print (error_line a m (caught (server w (sent w)))),
          Sleep 2]\<rparr>)"
  using assms
proof
  assume "server w (sent w) = Raises msg"
  then show ?thesis
    by (simp add: poll_iteration_def poll_try_def prog_defs error_line_def caught_def)
next
  assume "\<exists>r. server w (sent w) = Responds r \<and> json_body r = None"
  then obtain r where r: "server w (sent w) = Responds r" "json_body r = None" by blast
  show ?thesis
  proof (cases "raise_for_status r")
    case (Inl e)
    with r raise_for_status_Exception [OF Inl] show ?thesis
      by (simp add: poll_iteration_def poll_try_def prog_defs error_line_def caught_def)
  next
    case (Inr u)
    with r show ?thesis
      by (simp add: poll_iteration_def poll_try_def prog_defs error_line_def caught_def
          response_json_def)
  qed
qed

lemma poll_iteration_http_error:
  assumes "server w (sent w) = Responds r" and "\<not> ok r"
  shows "poll_iteration rid m a w =
    (Inr Next,
     w\<lparr>sent := Suc (sent w),
       trace := trace w @
         [Get (poll_url rid), Print (error_line a m (HTTPError (status_code r))), Sleep 2]\<rparr>)"
proof -
  from assms(2) have "raise_for_status r = Inl (HTTPError (status_code r))"
    by (simp add: ok_def raise_for_status_def split: if_splits)
  with assms(1) show ?thesis
    by (simp add: poll_iteration_def poll_try_def prog_defs error_line_def)
qed

lemma poll_iteration_falsy:
  assumes "server w (sent w) = Responds r" and "ok r" and "json_body r = Some v"
    and "\<not> truthy v"
  shows "poll_iteration rid m a w =
    (Inr Next,
     w\<lparr>sent := Suc (sent w),
       trace := trace w @ [Get (poll_url rid), Print (deserialize_line a m), Sleep 2]\<rparr>)"
  using assms
  by (simp add: poll_iteration_def poll_try_def prog_defs deserialize_line_def
      response_json_def ok_raise_for_status)

lemma poll_iteration_no_get:
  assumes "server w (sent w) = Responds r" and "ok r" and "json_body r = Some v"
    and "truthy v" and "dict_get v ''status'' (PStr ''unknown'') = Inl e"
  shows "poll_iteration rid m a w =
    (Inr Next,
     w\<lparr>sent := Suc (sent w),
       trace := trace w @ [Get (poll_url rid), Print (error_line a m AttributeError), Sleep 2]\<rparr>)"
proof -
  from assms(5) have "e = AttributeError" by (cases v) auto
  with assms show ?thesis
    by (simp add: poll_iteration_def poll_try_def prog_defs error_line_def
        response_json_def ok_raise_for_status)
qed

text \<open>
  A dict whose status line cannot be printed is not returned, whatever its status: the
  exception of \<^verbatim>\<open>print\<close> is caught like any other.
\<close>

lemma poll_iteration_unprintable:
  assumes "server w (sent w) = Responds r" and "ok r"
    and "json_body r = Some (PDict kvs)" and "kvs \<noteq> []"
    and "\<not> list_all encodable (ftext_fields (status_line a m kvs))"
  shows "poll_iteration rid m a w =
    (Inr Next,
     w\<lparr>sent := Suc (sent w),
       trace := trace w @
         [Get (poll_url rid), Print (error_line a m UnicodeEncodeError), Sleep 2]\<rparr>)"
  using assms
  by (auto simp add: poll_iteration_def poll_try_def prog_defs error_line_def status_line_def
      message_of_def response_json_def ok_raise_for_status)

lemma poll_iteration_waiting:
  assumes "server w (sent w) = Responds r" and "ok r"
    and "json_body r = Some (PDict kvs)" and "kvs \<noteq> []"
    and "list_all encodable (ftext_fields (status_line a m kvs))"
    and "map_of kvs ''status'' \<notin>
      set [Some (PStr ''complete''), Some (PStr ''failed''), Some (PStr ''canceled'')]"
  shows "poll_iteration rid m a w =
    (Inr Next,
     w\<lparr>sent := Suc (sent w),
       trace := trace w @ [Get (poll_url rid), Print (status_line a m kvs), Sleep 2]\<rparr>)"
  using assms
  by (cases "map_of kvs ''status''")
    (simp_all add: poll_iteration_def poll_try_def prog_defs status_line_def
      message_of_def response_json_def ok_raise_for_status)

lemma poll_iteration_complete:
  assumes "server w (sent w) = Responds r" and "ok r"
    and "json_body r = Some (PDict kvs)"
    and "map_of kvs ''status'' = Some (PStr ''complete'')"
    and "encodable (message_of kvs)"
  shows "poll_iteration rid m a w =
    (Inr (Return (PDict kvs)),
     w\<lparr>sent := Suc (sent w),
       trace := trace w @ [Get (poll_url rid), Print (status_line a m kvs)]\<rparr>)"
proof -
  from assms(4) have "kvs \<noteq> []" by auto
  with assms show ?thesis
    by (simp add: poll_iteration_def poll_try_def prog_defs response_json_def
        ok_raise_for_status status_line_def message_of_def)
qed

lemma poll_iteration_failed:
  assumes "server w (sent w) = Responds r" and "ok r"
    and "json_body r = Some (PDict kvs)"
    and "map_of kvs ''status'' = Some (PStr s)" and "s = ''failed'' \<or> s = ''canceled''"
    and "encodable (message_of kvs)" and "encodable (error_of kvs)"
  shows "poll_iteration rid m a w =
    (Inr (Return (PDict kvs)),
     w\<lparr>sent := Suc (sent w),
       trace := trace w @
         [Get (poll_url rid), Print (status_line a m kvs), Print (failure_line kvs)]\<rparr>)"
proof -
  from assms(4) have "kvs \<noteq> []" by auto
  with assms show ?thesis
    by (auto simp add: poll_iteration_def poll_try_def prog_defs response_json_def
        ok_raise_for_status status_line_def message_of_def error_of_def failure_line_def)
qed

text \<open>
  When the status is \<^verbatim>\<open>failed\<close> or \<^verbatim>\<open>canceled\<close> and only the error cannot be
  printed, the status line is out before \<^verbatim>\<open>print\<close> raises.
\<close>

lemma poll_iteration_failed_unprintable:
  assumes "server w (sent w) = Responds r" and "ok r"
    and "json_body r = Some (PDict kvs)"
    and "map_of kvs ''status'' = Some (PStr s)" and "s = ''failed'' \<or> s = ''canceled''"
    and "encodable (message_of kvs)" and "\<not> encodable (error_of kvs)"
  shows "poll_iteration rid m a w =
    (Inr Next,
     w\<lparr>sent := Suc (sent w),
       trace := trace w @
         [Get (poll_url rid), Print (status_line a m kvs),
          Print (error_line a m UnicodeEncodeError), Sleep 2]\<rparr>)"
proof -
  from assms(4) have "kvs \<noteq> []" by auto
  with assms show ?thesis
    by (auto simp add: poll_iteration_def poll_try_def prog_defs response_json_def
        ok_raise_for_status status_line_def message_of_def error_of_def error_line_def)
qed

lemma truthy_get_dict:
  assumes "truthy v" and "dict_get v ''status'' (PStr ''unknown'') = Inr s"
  obtains kvs where "v = PDict kvs" and "kvs \<noteq> []"
    and "s = (case map_of kvs ''status'' of None \<Rightarrow> PStr ''unknown'' | Some x \<Rightarrow> x)"
  using assms by (cases v) auto

text \<open>
  An iteration whose reply is not terminal goes on to the next one, whatever the reply
  was: it has made one request, printed one line and slept two seconds.
\<close>

lemma poll_iteration_Next:
  assumes "\<not> terminal (server w (sent w))"
  shows "\<exists>l. poll_iteration rid m a w =
    (Inr Next, w\<lparr>sent := Suc (sent w), trace := trace w @ attempt_events rid l\<rparr>)"
proof (cases "server w (sent w)")
  case (Raises msg)
  then show ?thesis
    using poll_iteration_error [of w msg rid m a] by (auto simp: attempt_events_def)
next
  case (Responds r)
  show ?thesis
  proof (cases "ok r")
    case False
    from poll_iteration_http_error [OF Responds False] show ?thesis
      by (auto simp: attempt_events_def)
  next
    case True
    show ?thesis
    proof (cases "json_body r")
      case None
      with Responds poll_iteration_error [of w undefined rid m a] show ?thesis
        by (auto simp: attempt_events_def)
    next
      case (Some v)
      show ?thesis
      proof (cases "truthy v")
        case False
        from poll_iteration_falsy [OF Responds True Some False] show ?thesis
          by (auto simp: attempt_events_def)
      next
        case tr: True
        show ?thesis
        proof (cases "dict_get v ''status'' (PStr ''unknown'')")
          case (Inl e)
          from poll_iteration_no_get [OF Responds True Some tr Inl] show ?thesis
            by (auto simp: attempt_events_def)
        next
          case (Inr s)
          with tr obtain kvs where v: "v = PDict kvs" and ne: "kvs \<noteq> []"
            and s: "s = (case map_of kvs ''status'' of None \<Rightarrow> PStr ''unknown'' | Some x \<Rightarrow> x)"
            by (rule truthy_get_dict)
          show ?thesis
          proof (cases "list_all encodable (ftext_fields (status_line a m kvs))")
            case False
            from poll_iteration_unprintable [OF Responds True Some [unfolded v] ne False]
            show ?thesis by (auto simp: attempt_events_def)
          next
            case enc: True
            from assms Responds True Some v ne
            have "map_of kvs ''status'' \<notin>
              set [Some (PStr ''complete''), Some (PStr ''failed''), Some (PStr ''canceled'')]"
              by (auto simp: terminal_def seen_status_def split: option.splits)
            from poll_iteration_waiting [OF Responds True Some [unfolded v] ne enc this]
            show ?thesis by (auto simp: attempt_events_def)
          qed
        qed
      qed
    qed
  qed
qed

text \<open>Iterations without a terminal status only move the loop forward.\<close>

lemma poll_loop_skip:
  assumes "\<forall>j<length pre. \<not> terminal (server w (sent w + j))"
  shows "\<exists>ls. length ls = length pre \<and>
    poll_loop rid m (pre @ rest) w =
    poll_loop rid m rest
      (w\<lparr>sent := sent w + length pre,
         trace := trace w @ concat (map (attempt_events rid) ls)\<rparr>)"
  using assms
proof (induction pre arbitrary: w)
  case Nil
  show ?case by (intro exI [of _ "[]"]) simp
next
  case (Cons a pre)
  from Cons.prems have "\<not> terminal (server w (sent w))" by force
  then obtain l where step: "poll_iteration rid m a w =
      (Inr Next, w\<lparr>sent := Suc (sent w), trace := trace w @ attempt_events rid l\<rparr>)"
    using poll_iteration_Next by blast
  define w1 where "w1 = w\<lparr>sent := Suc (sent w), trace := trace w @ attempt_events rid l\<rparr>"
  have "\<forall>j<length pre. \<not> terminal (server w1 (sent w1 + j))"
    using Cons.prems by (auto simp: w1_def)
  from Cons.IH [OF this] obtain ls where ls: "length ls = length pre"
    "poll_loop rid m (pre @ rest) w1 =
      poll_loop rid m rest
        (w1\<lparr>sent := sent w1 + length pre,
            trace := trace w1 @ concat (map (attempt_events rid) ls)\<rparr>)"
    by blast
  have "poll_loop rid m ((a # pre) @ rest) w = poll_loop rid m (pre @ rest) w1"
    using step by (simp add: bnd_def w1_def)
  with ls show ?case
    by (intro exI [of _ "l # ls"]) (simp add: w1_def)
qed



text \<open>
  Every iteration starts with its request, and either goes on or returns a truthy
  value; it never raises.
\<close>

lemma terminal_cases:
  assumes "terminal rp"
  obtains r kvs s where "rp = Responds r" and "ok r" and "json_body r = Some (PDict kvs)"
    and "map_of kvs ''status'' = Some (PStr s)"
    and "s = ''complete'' \<or> s = ''failed'' \<or> s = ''canceled''"
proof (cases rp)
  case (Raises m)
  with assms show ?thesis by (simp add: terminal_def seen_status_def)
next
  case (Responds r)
  with assms have okr: "ok r" by (auto simp: terminal_def seen_status_def split: if_splits)
  with assms Responds obtain result where res: "json_body r = Some result"
    by (cases "json_body r") (auto simp: terminal_def seen_status_def)
  with assms Responds okr have tr: "truthy result"
    by (auto simp: terminal_def seen_status_def split: if_splits)
  show ?thesis
  proof (cases result)
    case (PDict kvs)
    with assms Responds okr res tr
    have "case map_of kvs ''status'' of None \<Rightarrow> False
      | Some v \<Rightarrow> v = PStr ''complete'' \<or> v = PStr ''failed'' \<or> v = PStr ''canceled''"
      by (auto simp: terminal_def seen_status_def split: option.splits)
    then obtain s where "map_of kvs ''status'' = Some (PStr s)"
      "s = ''complete'' \<or> s = ''failed'' \<or> s = ''canceled''"
      by (auto split: option.splits)
    with that Responds okr res PDict show ?thesis by blast
  qed (use assms Responds okr res tr in \<open>simp_all add: terminal_def seen_status_def\<close>)
qed

lemma poll_iteration_total:
  "\<exists>c evs. poll_iteration rid m a w =
      (Inr c, w\<lparr>sent := Suc (sent w), trace := trace w @ Get (poll_url rid) # evs\<rparr>) \<and>
     (case c of Next \<Rightarrow> True | Return x \<Rightarrow> truthy x)"
proof (cases "terminal (server w (sent w))")
  case False
  from poll_iteration_Next [OF this, of rid m a] show ?thesis
    by (auto simp: attempt_events_def)
next
  case True
  then obtain r kvs s where *: "server w (sent w) = Responds r" "ok r"
    "json_body r = Some (PDict kvs)" "map_of kvs ''status'' = Some (PStr s)"
    "s = ''complete'' \<or> s = ''failed'' \<or> s = ''canceled''"
    by (rule terminal_cases)
  from *(4) have ne: "kvs \<noteq> []" by auto
  show ?thesis
  proof (cases "encodable (message_of kvs)")
    case False
    then have "\<not> list_all encodable (ftext_fields (status_line a m kvs))"
      by (simp add: status_line_def)
    from poll_iteration_unprintable [OF *(1,2,3) ne this] show ?thesis by auto
  next
    case msg: True
    show ?thesis
    proof (cases "s = ''complete''")
      case True
      with * msg poll_iteration_complete [of w r kvs rid m a] ne show ?thesis by auto
    next
      case False
      with * have s: "s = ''failed'' \<or> s = ''canceled''" by simp
      show ?thesis
      proof (cases "encodable (error_of kvs)")
        case True
        from poll_iteration_failed [OF *(1,2,3,4) s msg True] ne show ?thesis by auto
      next
        case False
        from poll_iteration_failed_unprintable [OF *(1,2,3,4) s msg False] show ?thesis by auto
      qed
    qed
  qed
qed

text \<open>
  The loop never raises. What it returns is truthy or the sentinel of the time-out; with
  no attempt left it only prints the time-out line, and with one left it starts with a
  request.
\<close>

lemma poll_loop_run:
  "\<exists>x w' evs. poll_loop rid m as w = (Inr x, w') \<and> trace w' = trace w @ evs \<and>
     (truthy x \<or> x = PNone \<and> last (trace w') = Print timeout_line) \<and>
     (case as of
        [] \<Rightarrow> evs = [Print timeout_line] \<and> x = PNone \<and> sent w' = sent w
      | a # rest \<Rightarrow> (\<exists>more. evs = Get (poll_url rid) # more) \<and> Suc (sent w) \<le> sent w')"
proof (induction as arbitrary: w)
  case Nil
  show ?case by (simp add: prog_defs timeout_line_def)
next
  case (Cons a as)
  from poll_iteration_total [of rid m a w] obtain c evs where
    it: "poll_iteration rid m a w =
      (Inr c, w\<lparr>sent := Suc (sent w), trace := trace w @ Get (poll_url rid) # evs\<rparr>)"
    and c: "case c of Next \<Rightarrow> True | Return x \<Rightarrow> truthy x"
    by blast
  define w1 where "w1 = w\<lparr>sent := Suc (sent w), trace := trace w @ Get (poll_url rid) # evs\<rparr>"
  show ?case
  proof (cases c)
    case (Return x)
    with it c show ?thesis by (simp add: bnd_def ret_def)
  next
    case Next
    with it have run: "poll_loop rid m (a # as) w = poll_loop rid m as w1"
      by (simp add: bnd_def w1_def)
    from Cons.IH [of w1] obtain x w' evs' where
      *: "poll_loop rid m as w1 = (Inr x, w')" "trace w' = trace w1 @ evs'"
      "truthy x \<or> x = PNone \<and> last (trace w') = Print timeout_line"
      and le: "sent w1 \<le> sent w'"
      by (cases as) auto
    from * le run show ?thesis by (simp add: w1_def)
  qed
qed

lemma poll_loop_total:
  "\<exists>x w'. poll_loop rid m as w = (Inr x, w') \<and>
     (truthy x \<or> x = PNone \<and> last (trace w') = Print timeout_line)"
  using poll_loop_run [of rid m as w] by blast




lemma running_not_terminal: "\<not> terminal running"
  by (simp add: running_def json_response_def terminal_def seen_status_def ok_def
      raise_for_status_def)





lemma running_status_not_terminal:
  assumes "rp = Responds r" and "json_body r = Some (PDict kvs)"
    and "map_of kvs ''status'' = Some (PStr ''running'')"
  shows "\<not> terminal rp"
  using assms by (simp add: terminal_def seen_status_def)

text \<open>
  Claim C3. With \<^verbatim>\<open>max_attempts = 3\<close>, for every request id, against a server whose
  every answer parses to a dict with status \<^verbatim>\<open>"running"\<close>, the function makes exactly
  three GET requests to the URL of the request id, sleeps two seconds after each of
  them (so between any two consecutive requests), prints the time-out line and returns
  \<^verbatim>\<open>None\<close>.
\<close>

theorem poll_three_running:
  assumes "\<forall>n. \<exists>r kvs. server w n = Responds r \<and> json_body r = Some (PDict kvs) \<and>
    map_of kvs ''status'' = Some (PStr ''running'')"
  shows "\<exists>l1 l2 l3. poll_for_results request_id 3 w =
    (Inr PNone,
     w\<lparr>sent := sent w + 3,
       trace := trace w @
         [Get (poll_url request_id), Print l1, Sleep 2,
          Get (poll_url request_id), Print l2, Sleep 2,
          Get (poll_url request_id), Print l3, Sleep 2,
          Print timeout_line]\<rparr>)"
proof -
  have nt: "\<forall>j<length [1, 2, 3 :: int]. \<not> terminal (server w (sent w + j))"
    using assms running_status_not_terminal by blast
  have up: "[1..3] = [1, 2, 3 :: int]" by (simp add: upto_rec1)
  have len: "length [1, 2, 3 :: int] = 3" by simp
  from poll_loop_skip [OF nt, of request_id 3 "[]", unfolded len append_Nil2]
  obtain ls where ls: "length ls = 3"
    "poll_loop request_id 3 [1, 2, 3] w =
      poll_loop request_id 3 []
        (w\<lparr>sent := sent w + 3,
           trace := trace w @ concat (map (attempt_events request_id) ls)\<rparr>)"
    by blast
  from ls(1) obtain l1 l2 l3 where "ls = [l1, l2, l3]"
    by (auto simp: length_Suc_conv numeral_3_eq_3)
  with ls(2) show ?thesis
    by (intro exI [of _ l1] exI [of _ l2] exI [of _ l3])
      (simp add: poll_for_results_def up prog_defs attempt_events_def timeout_line_def)
qed

theorem poll_three_running_witness:
  "fst (poll_for_results (PStr ''r1'') 3 w_running) = Inr PNone \<and>
   sent (snd (poll_for_results (PStr ''r1'') 3 w_running)) = 3 \<and>
   sleeps (trace (snd (poll_for_results (PStr ''r1'') 3 w_running))) = [2, 2, 2]"
proof -
  have "\<forall>n. \<exists>r kvs. server w_running n = Responds r \<and> json_body r = Some (PDict kvs) \<and>
      map_of kvs ''status'' = Some (PStr ''running'')"
    by (simp add: w_running_def start_def running_def json_response_def)
  from poll_three_running [OF this, of "PStr ''r1''"]
  show ?thesis by (auto simp: w_running_def start_def)
qed

lemma sleeps_append: "sleeps (xs @ ys) = sleeps xs @ sleeps ys"
  by (induction xs rule: sleeps.induct) simp_all

lemma sleeps_attempts:
  "sleeps (concat (map (attempt_events rid) ls)) = replicate (length ls) 2"
  by (induction ls) (simp_all add: attempt_events_def)

text \<open>
  Claim C10. When no iteration sees a terminal status, the run consists of
  \<^verbatim>\<open>max_attempts\<close> iterations (none when \<^verbatim>\<open>max_attempts\<close> is not positive), each of
  them a request, a line and a sleep of two seconds, followed by the time-out line: the
  function sleeps exactly \<^verbatim>\<open>max_attempts\<close> times, the last time after the final
  attempt and before it returns \<^verbatim>\<open>None\<close>.
\<close>

theorem poll_sleeps_after_every_attempt:
  assumes "\<forall>j<nat max_attempts. \<not> terminal (server w (sent w + j))"
  shows "\<exists>ls. length ls = nat max_attempts \<and>
    poll_for_results request_id max_attempts w =
      (Inr PNone,
       w\<lparr>sent := sent w + nat max_attempts,
         trace := trace w @ concat (map (attempt_events request_id) ls) @
           [Print timeout_line]\<rparr>) \<and>
    sleeps (trace (snd (poll_for_results request_id max_attempts w))) =
      sleeps (trace w) @ replicate (nat max_attempts) 2"
proof -
  have len: "length [1..max_attempts] = nat max_attempts" by simp
  from assms have "\<forall>j<length [1..max_attempts]. \<not> terminal (server w (sent w + j))"
    by (simp only: len)
  from poll_loop_skip [OF this, of request_id max_attempts "[]"] obtain ls where
    ls: "length ls = nat max_attempts"
    "poll_loop request_id max_attempts [1..max_attempts] w =
      poll_loop request_id max_attempts []
        (w\<lparr>sent := sent w + nat max_attempts,
           trace := trace w @ concat (map (attempt_events request_id) ls)\<rparr>)"
    unfolding len append_Nil2 by blast
  then have run: "poll_for_results request_id max_attempts w =
      (Inr PNone,
       w\<lparr>sent := sent w + nat max_attempts,
         trace := trace w @ concat (map (attempt_events request_id) ls) @
           [Print timeout_line]\<rparr>)"
    by (simp add: poll_for_results_def prog_defs timeout_line_def)
  have "sleeps (trace (snd (poll_for_results request_id max_attempts w))) =
      sleeps (trace w) @ replicate (nat max_attempts) 2"
    by (simp add: run sleeps_append sleeps_attempts ls(1))
  with ls(1) run show ?thesis by blast
qed

theorem poll_sleeps_after_every_attempt_witness:
  "sleeps (trace (snd (poll_for_results (PStr ''r1'') 4 w_running))) = [2, 2, 2, 2] \<and>
   last (butlast (trace (snd (poll_for_results (PStr ''r1'') 4 w_running)))) = Sleep 2"
proof -
  have "\<forall>j<nat 4. \<not> terminal (server w_running (sent w_running + j))"
    by (simp add: w_running_def start_def running_not_terminal)
  from poll_sleeps_after_every_attempt [OF this, of "PStr ''r1''"]
  show ?thesis
    by (auto simp: w_running_def start_def attempt_events_def length_Suc_conv
        eval_nat_numeral)
qed





subsection \<open>Submitting the request\<close>




text \<open>Whatever the server does, \<^verbatim>\<open>submit_retrieve_request\<close> returns a value.\<close>

lemma submit_never_raises:
  "\<exists>x w'. submit_retrieve_request url force_refresh mode w = (Inr x, w')"
proof (cases "server w (sent w)")
  case (Raises m)
  then show ?thesis by (simp add: submit_retrieve_request_def prog_defs)
next
  case (Responds r)
  then show ?thesis
    by (cases "json_body r")
      (auto simp add: submit_retrieve_request_def prog_defs ok_def raise_for_status_def
        response_json_def)
qed

subsection \<open>Downloading the page data\<close>

text \<open>
  Claim C6. When the page data has been fetched and parsed, \<^verbatim>\<open>download_page_data\<close>
  prints, between the two rules, one text: the first 500 characters of the
  pretty-printed form followed by \<^verbatim>\<open>...\<close> when that form is longer than 500
  characters, and the form itself, unchanged, when it has at most 500 characters.
\<close>

theorem download_prints_first_500:
  assumes "server w (sent w) = Responds r" and "ok r" and "json_body r = Some page_data"
  shows "\<exists>shown. download_page_data dumps page_data_url w =
      (Inr (),
       w\<lparr>sent := Suc (sent w),
         trace := trace w @
           [Print (Str ''Downloading page content...''),
            Get (Fmt ''{page_data_url}'' [page_data_url]),
            Print (Str ''Page Content (first 500 chars):''),
            Print hrule, Print (Str shown), Print hrule]\<rparr>) \<and>
    (500 < length (dumps page_data) \<longrightarrow>
       shown = take 500 (dumps page_data) @ ''...'' \<and> length (take 500 (dumps page_data)) = 500) \<and>
    (length (dumps page_data) \<le> 500 \<longrightarrow> shown = dumps page_data)"
proof (cases "500 < length (dumps page_data)")
  case True
  with assms show ?thesis
    by (intro exI [of _ "take 500 (dumps page_data) @ ''...''"])
      (simp add: download_page_data_def prog_defs ok_raise_for_status response_json_def
        Let_def)
next
  case False
  with assms show ?thesis
    by (intro exI [of _ "dumps page_data"])
      (simp add: download_page_data_def prog_defs ok_raise_for_status response_json_def
        Let_def)
qed

theorem download_prints_first_500_witness:
  "download_page_data long_dumps (PStr ''https://example.com/page.json'') w_page =
      (Inr (),
       w_page\<lparr>sent := 1,
         trace :=
           [Print (Str ''Downloading page content...''),
            Get (Fmt ''{page_data_url}'' [PStr ''https://example.com/page.json'']),
            Print (Str ''Page Content (first 500 chars):''),
            Print hrule, Print (Str (replicate 500 CHR ''x'' @ ''...'')), Print hrule]\<rparr>)"
proof -
  let ?r = "\<lparr>status_code = 200, body_text = ''(json)'',
    json_body = Some (PDict [(''title'', PStr ''t'')])\<rparr>"
  have 1: "server w_page (sent w_page) = Responds ?r"
    by (simp add: w_page_def start_def json_response_def)
  have 2: "ok ?r" by (simp add: ok_def raise_for_status_def)
  have 3: "json_body ?r = Some (PDict [(''title'', PStr ''t'')])" by simp
  from download_prints_first_500 [OF 1 2 3, of long_dumps "PStr ''https://example.com/page.json''"]
  show ?thesis by (auto simp: w_page_def start_def long_dumps_def)
qed

subsection \<open>The entry point\<close>

text \<open>
  Claim C8. When the API key is empty, be it the first command-line argument or the
  stripped line read at the prompt, \<^verbatim>\<open>main\<close> prints the usage lines and ends in
  \<^verbatim>\<open>SystemExit(1)\<close>, so the exit status is not zero. Nothing else has happened: the
  trace has grown by the prompt (when there was one) and the usage lines only, no
  session has been opened and no request has been sent.
\<close>

theorem main_empty_key_exits:
  assumes "(1 < length argv \<and> argv ! 1 = []) \<or>
    (length argv \<le> 1 \<and> (\<exists>l ls. stdin w = l # ls \<and> strip l = []))"
  shows "main dumps argv w =
      (Inl (SystemExit 1),
       w\<lparr>stdin := (if 1 < length argv then stdin w else tl (stdin w)),
         trace := trace w @
           (if 1 < length argv then [] else [Prompt (Str ''Enter your API key: '')]) @
           usage_lines\<rparr>) \<and>
    exit_status (fst (main dumps argv w)) \<noteq> 0 \<and>
    sent (snd (main dumps argv w)) = sent w"
  using assms
  by (auto simp add: main_def usage_def prog_defs usage_lines_def)

theorem main_empty_key_exits_witness:
  "main long_dumps [''viewengine_demo.py''] w_blank_key =
     (Inl (SystemExit 1),
      w_blank_key\<lparr>stdin := [],
        trace := Prompt (Str ''Enter your API key: '') # usage_lines\<rparr>) \<and>
   fst (main long_dumps [''viewengine_demo.py'', []] w_blank_key) = Inl (SystemExit 1)"
proof -
  have 1: "(1 < length [''viewengine_demo.py''] \<and> [''viewengine_demo.py''] ! 1 = []) \<or>
    (length [''viewengine_demo.py''] \<le> 1 \<and>
      (\<exists>l ls. stdin w_blank_key = l # ls \<and> strip l = []))"
    by (simp add: w_blank_key_def start_def strip_def is_space_def)
  have 2: "(1 < length [''viewengine_demo.py'', []] \<and> [''viewengine_demo.py'', []] ! 1 = []) \<or>
    (length [''viewengine_demo.py'', []] \<le> 1 \<and>
      (\<exists>l ls. stdin w_blank_key = l # ls \<and> strip l = []))"
    by simp
  from main_empty_key_exits [OF 1, of long_dumps] main_empty_key_exits [OF 2, of long_dumps]
  show ?thesis
    by (auto simp: w_blank_key_def start_def)
qed

subsection \<open>The processing mode\<close>


































end
